theory Spec2Isabelle
  imports Complex_Main "HOL-Library.Sublist"
begin

section \<open>Data model\<close>

text \<open>
  The game is written in TypeScript. Every \<open>number\<close> of the source is modelled as a
  \<^typ>\<open>real\<close>: the arithmetic below is the exact arithmetic the source's formulas denote,
  without the rounding of IEEE doubles. \<open>Math.floor\<close> is \<^const>\<open>floor\<close>.

  The two impure primitives of the source are parameters of the model:
  \<^item> \<open>Math.random()\<close>: the sequence of its results is a function \<open>rnd\<close> from the number
    of the draw to its value, and every function that draws takes the number \<open>k\<close> of the
    next draw and returns the number of the first draw it has not used;
  \<^item> \<open>Date.now()\<close>: the clock reading \<open>now\<close> of the call.
\<close>

type_synonym draws = "nat \<Rightarrow> real"

text \<open>
  \<open>generateId\<close> concatenates the base-36 renderings of \<open>Date.now()\<close> and of one draw of
  \<open>Math.random()\<close>. The identifier is kept as the pair of the two numbers rendered.
\<close>

type_synonym ident = "real \<times> real"

definition generateId :: "real \<Rightarrow> draws \<Rightarrow> nat \<Rightarrow> ident \<times> nat" where
  "generateId now rnd k = ((now, rnd k), Suc k)"

subsection \<open>Positions, colliders, entities\<close>

text \<open>
  The interfaces \<open>Position\<close>, \<open>Collider\<close> and \<open>Entity\<close> of the source extend one another;
  so do the records. The fields \<open>attack\<close>, \<open>defense\<close>, \<open>moveSpeed\<close>, \<open>attackSpeed\<close> and
  \<open>lastAttackTime\<close>, which the classes \<open>Player\<close> and \<open>Monster\<close> both declare, are the
  record \<open>fighter\<close>.
\<close>

record position =
  x :: real
  y :: real

record collider = position +
  width :: real
  height :: real
  isSolid :: bool

record entity = collider +
  entId :: ident
  health :: real
  maxHealth :: real
  level :: real

record fighter = entity +
  attack :: real
  defense :: real
  moveSpeed :: real
  attackSpeed :: real
  lastAttackTime :: real

subsection \<open>Equipment\<close>

datatype equipment_type = WEAPON | ARMOR | ACCESSORY

datatype rarity = common | uncommon | rare | epic | legendary

text \<open>The keys of \<open>RARITY_TYPES\<close>, which the rarity rolls return before lower-casing.\<close>

datatype rarity_key = COMMON | UNCOMMON | RARE | EPIC | LEGENDARY

fun toLowerCase :: "rarity_key \<Rightarrow> rarity" where
  "toLowerCase COMMON = common"
| "toLowerCase UNCOMMON = uncommon"
| "toLowerCase RARE = rare"
| "toLowerCase EPIC = epic"
| "toLowerCase LEGENDARY = legendary"

text \<open>
  The stat bag of an item is a JavaScript object: a sequence of (key, number) entries in
  insertion order, as \<open>Object.entries\<close> lists them. \<open>statOf\<close> is the property read
  \<open>item.stats.key\<close>, \<open>None\<close> standing for \<open>undefined\<close>.
\<close>

datatype stat_name = Attack | Defense | MaxHealth | CriticalRate | Lifesteal | OtherStat string

type_synonym stats = "(stat_name \<times> real) list"

definition statOf :: "stats \<Rightarrow> stat_name \<Rightarrow> real option" where
  "statOf st key = map_of st key"

text \<open>JavaScript truthiness of an optional number: defined and not zero.\<close>

fun truthy :: "real option \<Rightarrow> bool" where
  "truthy None = False"
| "truthy (Some v) = (v \<noteq> 0)"

text \<open>
  An equipment object. \<open>equipLevel\<close> is present on the instances of \<open>BaseEquipment\<close> only;
  \<open>hasEffects\<close> tells whether the object has the methods \<open>applyEffect\<close> and \<open>removeEffect\<close>,
  which live on the prototype of \<open>BaseEquipment\<close> and are optional in the interface
  \<open>Equipment\<close>: an object literal (the loot of \<open>Monster.dropLoot\<close>, a spread copy) has none.
\<close>

record equipment =
  equipId :: ident
  name :: string
  description :: string
  etype :: equipment_type
  erarity :: rarity
  equipLevel :: "real option"
  stats :: stats
  isEquipped :: bool
  hasEffects :: bool

text \<open>
  Equipment objects are shared by reference and mutated in place, so they live in a store:
  the list of all equipment objects allocated so far, an object's address being its index.
  The lists \<open>equipment\<close> and \<open>inventory\<close> of a player hold addresses.
\<close>

type_synonym addr = nat
type_synonym store = "equipment list"

definition alloc :: "store \<Rightarrow> equipment \<Rightarrow> addr \<times> store" where
  "alloc st e = (length st, st @ [e])"

subsection \<open>Skills\<close>

text \<open>
  The fields of the interface \<open>Skill\<close>. The private fields of the skill classes (bonuses,
  radii, timers) play no part in what follows and are left out.
\<close>

datatype skill_type = aura | projectile | buff | debuff

record skill =
  skillId :: ident
  skillName :: string
  skillType :: skill_type
  skillLevel :: real
  maxLevel :: real
  cooldown :: real
  currentCooldown :: real

subsection \<open>Player, monster, obstacle\<close>

text \<open>
  The classes \<open>Player\<close> and \<open>Monster\<close> and the interface \<open>Obstacle\<close>; the constant tag
  \<open>type\<close> of each is the type of the record. Of the class \<open>Monster\<close> the fields of the
  movement (the target, the template of the monster type, the wander direction and its
  timers) are left out: the combat of the game loop does not read them. The methods
  \<open>update\<close>, \<open>draw\<close> and \<open>takeDamage\<close> of an obstacle are closures, not data; the last
  is \<open>obstacleTakeDamage\<close> below.
\<close>

record player = fighter +
  experience :: real
  experienceToNextLevel :: real
  skills :: "skill list"
  equipment :: "addr list"
  inventory :: "addr list"
  skillPoints :: real

record monster = fighter +
  experienceReward :: real
  isElite :: bool
  isBoss :: bool
  attackRange :: real
  aggroRange :: real

datatype obstacle_type = tree | rock | wall

record obstacle = entity +
  obstacleType :: obstacle_type

section \<open>Damage\<close>


text \<open>
  \<open>Player.takeDamage\<close>. The loop over the equipment reduces the damage by each equipped
  item whose \<open>defense\<close> stat is truthy.
\<close>

definition armorStep :: "real \<Rightarrow> equipment \<Rightarrow> real" where
  "armorStep actualDamage item =
     (case statOf (stats item) Defense of
        None \<Rightarrow> actualDamage
      | Some d \<Rightarrow>
          if isEquipped item \<and> d \<noteq> 0
          then (let itemReduction = min d (actualDamage * 0.5) in actualDamage - itemReduction)
          else actualDamage)"

text \<open>
  The bytes of the UTF-8 encoding of the two-character marker that \<open>takeDamage\<close> looks for
  in the name of a buff skill (the word for being wounded).
\<close>

definition hurtMarker :: string where
  "hurtMarker = [CHR 0xE5, CHR 0x8F, CHR 0x97, CHR 0xE4, CHR 0xBC, CHR 0xA4]"

definition includesStr :: "string \<Rightarrow> string \<Rightarrow> bool" where
  "includesStr s sub = sublist sub s"

text \<open>
  \<open>skill.effect(player)\<close> for a skill of type \<open>buff\<close>: the three buff classes of the skill
  system (strength, armour and health) all override \<open>effect\<close> with an empty body. The
  skills of a player are taken to be objects of the skill classes, as the interface
  \<open>Skill\<close> requires the method; no skill of the skill system has the marker in its name.
\<close>

definition buffEffect :: "skill \<Rightarrow> player \<Rightarrow> player" where
  "buffEffect s p = p"

definition hurtSkillStep :: "player \<Rightarrow> skill \<Rightarrow> player" where
  "hurtSkillStep p s =
     (if skillType s = buff \<and> includesStr (skillName s) hurtMarker then buffEffect s p else p)"

definition playerDamage :: "store \<Rightarrow> player \<Rightarrow> real \<Rightarrow> real" where
  "playerDamage st p amount =
     (let damageReduction = min (defense p) (amount * 0.8);
          actualDamage = max 1 (amount - damageReduction)
      in foldl armorStep actualDamage (map (\<lambda>a. st ! a) (equipment p)))"

definition playerTakeDamage :: "store \<Rightarrow> real \<Rightarrow> player \<Rightarrow> player \<times> bool" where
  "playerTakeDamage st amount p =
     (let actualDamage = playerDamage st p amount;
          p1 = p\<lparr>health := health p - max 1 actualDamage\<rparr>;
          p2 = foldl hurtSkillStep p1 (skills p1)
      in (p2, health p2 \<le> 0))"


section \<open>Random numbers\<close>


section \<open>Progression\<close>

text \<open>The state of a player made by \<open>new Player(x, y)\<close>.\<close>

definition newPlayer :: "real \<Rightarrow> draws \<Rightarrow> nat \<Rightarrow> real \<Rightarrow> real \<Rightarrow> player \<times> nat" where
  "newPlayer now rnd k px py =
     (\<lparr>x = px, y = py, width = 40, height = 60, isSolid = True,
       entId = fst (generateId now rnd k), health = 100, maxHealth = 100, level = 1,
       attack = 20, defense = 5, moveSpeed = 300, attackSpeed = 1000, lastAttackTime = 0,
       experience = 0, experienceToNextLevel = 100, skills = [], equipment = [],
       inventory = [], skillPoints = 0\<rparr>,
      snd (generateId now rnd k))"





section \<open>World chunks\<close>

definition CHUNK_SIZE :: real where
  "CHUNK_SIZE = 500"

record chunk =
  chunkId :: ident
  chunkX :: real
  chunkY :: real
  obstacles :: "obstacle list"
  generated :: bool

text \<open>
  The two closures of \<open>Chunk.generate\<close>: \<open>simpleRandom\<close> is the fractional part of
  \<open>10000 sin(seed)\<close>, and \<open>rng\<close> calls it on the chunk seed plus a thousand times a fresh
  draw of \<open>Math.random()\<close>.
\<close>

definition simpleRandom :: "real \<Rightarrow> real" where
  "simpleRandom s = (let v = sin s * 10000 in v - of_int \<lfloor>v\<rfloor>)"

definition rng :: "real \<Rightarrow> draws \<Rightarrow> nat \<Rightarrow> real \<times> nat" where
  "rng chunkSeed rnd k = (simpleRandom (chunkSeed + rnd k * 1000), Suc k)"

text \<open>\<open>types[randomIndex] || OBSTACLE_TYPES.TREE\<close>: the tree is the default out of range.\<close>

definition obstacleTypeAt :: "int \<Rightarrow> obstacle_type" where
  "obstacleTypeAt randomIndex =
     (if 0 \<le> randomIndex \<and> randomIndex < 3 then [tree, rock, wall] ! nat randomIndex else tree)"

text \<open>
  One iteration of the \<open>for\<close> loop of \<open>Chunk.generate\<close>: the position, the type, the size
  by type, then the identifier. The draws are used in the order of the calls in the source.
\<close>

definition makeObstacle :: "real \<Rightarrow> real \<Rightarrow> real \<Rightarrow> real \<Rightarrow> draws \<Rightarrow> nat \<Rightarrow> obstacle \<times> nat" where
  "makeObstacle chunkSeed worldX worldY now rnd k =
     (let ox = worldX + fst (rng chunkSeed rnd k) * CHUNK_SIZE;
          oy = worldY + fst (rng chunkSeed rnd (k + 1)) * CHUNK_SIZE;
          randomIndex = \<lfloor>fst (rng chunkSeed rnd (k + 2)) * 3\<rfloor>;
          ty = obstacleTypeAt randomIndex;
          w = (case ty of
                 tree \<Rightarrow> 40 + fst (rng chunkSeed rnd (k + 3)) * 20
               | rock \<Rightarrow> 30 + fst (rng chunkSeed rnd (k + 3)) * 30
               | wall \<Rightarrow> 50 + fst (rng chunkSeed rnd (k + 3)) * 100);
          h = (case ty of
                 tree \<Rightarrow> 60 + fst (rng chunkSeed rnd (k + 4)) * 40
               | rock \<Rightarrow> 30 + fst (rng chunkSeed rnd (k + 4)) * 30
               | wall \<Rightarrow> 20);
          hp = (case ty of tree \<Rightarrow> 100 | rock \<Rightarrow> 200 | wall \<Rightarrow> 500);
          k' = (case ty of tree \<Rightarrow> k + 5 | rock \<Rightarrow> k + 5 | wall \<Rightarrow> k + 4)
      in (\<lparr>x = ox, y = oy, width = w, height = h, isSolid = True,
           entId = fst (generateId now rnd k'), health = hp, maxHealth = hp, level = 1,
           obstacleType = ty\<rparr>,
          snd (generateId now rnd k')))"

function generateLoop ::
  "real \<Rightarrow> real \<Rightarrow> real \<Rightarrow> real \<Rightarrow> draws \<Rightarrow> real \<Rightarrow> nat \<Rightarrow> nat \<Rightarrow> obstacle list \<Rightarrow> obstacle list \<times> nat"
where
  "generateLoop chunkSeed worldX worldY now rnd obstacleCount i k obs =
     (if real i < obstacleCount
      then generateLoop chunkSeed worldX worldY now rnd obstacleCount (Suc i)
             (snd (makeObstacle chunkSeed worldX worldY now rnd k))
             (obs @ [fst (makeObstacle chunkSeed worldX worldY now rnd k)])
      else (obs, k))"
  by pat_completeness auto
termination
proof (relation "measure (\<lambda>(chunkSeed, worldX, worldY, now, rnd, obstacleCount, i, k, obs).
                  nat \<lceil>obstacleCount\<rceil> - i)")
  fix obstacleCount :: real and i :: nat
  fix chunkSeed worldX worldY now :: real and rnd :: draws and k :: nat and obs :: "obstacle list"
  assume "real i < obstacleCount"
  then have "real i < of_int \<lceil>obstacleCount\<rceil>"
    by (meson le_of_int_ceiling less_le_trans)
  then have "int i < \<lceil>obstacleCount\<rceil>"
    by linarith
  then have "i < nat \<lceil>obstacleCount\<rceil>"
    by linarith
  then show "((chunkSeed, worldX, worldY, now, rnd, obstacleCount, Suc i,
               snd (makeObstacle chunkSeed worldX worldY now rnd k),
               obs @ [fst (makeObstacle chunkSeed worldX worldY now rnd k)]),
              (chunkSeed, worldX, worldY, now, rnd, obstacleCount, i, k, obs))
             \<in> measure (\<lambda>(chunkSeed, worldX, worldY, now, rnd, obstacleCount, i, k, obs).
                  nat \<lceil>obstacleCount\<rceil> - i)"
    by simp
qed simp

declare generateLoop.simps [simp del]

text \<open>\<open>Chunk.generate(seed)\<close>: the chunk after the call and the number of the next draw.\<close>

definition generate :: "real \<Rightarrow> real \<Rightarrow> draws \<Rightarrow> nat \<Rightarrow> chunk \<Rightarrow> chunk \<times> nat" where
  "generate seed now rnd k c =
     (if generated c then (c, k)
      else
        let chunkSeed = seed + chunkX c * 10000 + chunkY c * 100;
            worldX = chunkX c * CHUNK_SIZE;
            worldY = chunkY c * CHUNK_SIZE;
            obstacleCount = of_int \<lfloor>fst (rng chunkSeed rnd k) * 15\<rfloor> + 5;
            r = generateLoop chunkSeed worldX worldY now rnd obstacleCount 0 (Suc k) (obstacles c)
        in (c\<lparr>obstacles := fst r, generated := True\<rparr>, snd r))"

section \<open>Equipment\<close>

text \<open>
  \<open>BaseEquipment.applyEffect\<close> and \<open>removeEffect\<close> on an object of the class \<open>Player\<close>,
  one entry of the stat bag at a time. The class has no property \<open>baseAttack\<close>,
  \<open>baseDefense\<close>, \<open>criticalRate\<close> or \<open>lifesteal\<close>, so the \<open>in\<close> tests of the source are
  false: attack and defense are changed directly, and the last two stats change nothing.
\<close>

fun applyEffectStep :: "player \<Rightarrow> stat_name \<times> real \<Rightarrow> player" where
  "applyEffectStep p (Attack, v) = p\<lparr>attack := attack p + v\<rparr>"
| "applyEffectStep p (Defense, v) = p\<lparr>defense := defense p + v\<rparr>"
| "applyEffectStep p (MaxHealth, v) =
     p\<lparr>maxHealth := maxHealth p + v, health := min (health p + v) (maxHealth p + v)\<rparr>"
| "applyEffectStep p (CriticalRate, v) = p"
| "applyEffectStep p (Lifesteal, v) = p"
| "applyEffectStep p (OtherStat s, v) = p"

definition applyEffect :: "equipment \<Rightarrow> player \<Rightarrow> player" where
  "applyEffect item p = foldl applyEffectStep p (stats item)"

fun removeEffectStep :: "player \<Rightarrow> stat_name \<times> real \<Rightarrow> player" where
  "removeEffectStep p (Attack, v) = p\<lparr>attack := attack p - v\<rparr>"
| "removeEffectStep p (Defense, v) = p\<lparr>defense := defense p - v\<rparr>"
| "removeEffectStep p (MaxHealth, v) =
     p\<lparr>maxHealth := maxHealth p - v, health := max 1 (health p - v)\<rparr>"
| "removeEffectStep p (CriticalRate, v) = p"
| "removeEffectStep p (Lifesteal, v) = p"
| "removeEffectStep p (OtherStat s, v) = p"

definition removeEffect :: "equipment \<Rightarrow> player \<Rightarrow> player" where
  "removeEffect item p = foldl removeEffectStep p (stats item)"

text \<open>Setting the flag \<open>isEquipped\<close> of the object at an address.\<close>

definition setEquipped :: "bool \<Rightarrow> store \<Rightarrow> addr \<Rightarrow> store" where
  "setEquipped b st a = st[a := (st ! a)\<lparr>isEquipped := b\<rparr>]"

text \<open>
  \<open>Player.addEquipment(equipment)\<close>, the argument being the object at address \<open>a\<close>: a
  spread copy, which has the own properties of the object and not the methods of its
  prototype, with \<open>isEquipped\<close> false, is allocated and pushed.
\<close>

definition addEquipment :: "addr \<Rightarrow> store \<Rightarrow> player \<Rightarrow> player \<times> store" where
  "addEquipment a st p =
     (let copy = (st ! a)\<lparr>isEquipped := False, hasEffects := False\<rparr>;
          r = alloc st copy
      in (p\<lparr>equipment := equipment p @ [fst r]\<rparr>, snd r))"

text \<open>
  \<open>Player.equipItem(equipmentId)\<close>. The method writes the flag \<open>isEquipped\<close> of equipment
  objects and nothing else: the player is returned as it was. The \<open>forEach\<close> clears the
  flag of every item of the list \<open>equipment\<close> that has the type of the item found.
\<close>

definition unflagType :: "equipment_type \<Rightarrow> store \<Rightarrow> addr \<Rightarrow> store" where
  "unflagType ty st b = (if etype (st ! b) = ty then setEquipped False st b else st)"


text \<open>
  \<open>EquipmentManager.equipToPlayer(player, equipment)\<close>, the second argument being the
  object at address \<open>a\<close>. The result \<open>true\<close> of the source is not kept.
\<close>

definition equipToPlayer :: "addr \<Rightarrow> store \<Rightarrow> player \<Rightarrow> player \<times> store" where
  "equipToPlayer a st p =
     (let p1 = (case find (\<lambda>b. etype (st ! b) = etype (st ! a)) (equipment p) of
                  None \<Rightarrow> p
                | Some old \<Rightarrow>
                    let q = (if hasEffects (st ! old) then removeEffect (st ! old) p else p);
                        q1 = q\<lparr>inventory := inventory q @ [old]\<rparr>
                    in q1\<lparr>equipment :=
                            filter (\<lambda>b. equipId (st ! b) \<noteq> equipId (st ! old)) (equipment q1)\<rparr>);
          p2 = (if hasEffects (st ! a) then applyEffect (st ! a) p1 else p1);
          p3 = p2\<lparr>equipment := equipment p2 @ [a]\<rparr>
      in (p3, setEquipped True st a))"

text \<open>\<open>EquipmentManager.unequipFromPlayer(player, equipment)\<close>, with its result.\<close>

definition unequipFromPlayer :: "addr \<Rightarrow> store \<Rightarrow> player \<Rightarrow> (player \<times> store) \<times> bool" where
  "unequipFromPlayer a st p =
     (if a \<in> set (equipment p)
      then
        let q = (if hasEffects (st ! a) then removeEffect (st ! a) p else p);
            q1 = q\<lparr>equipment := remove1 a (equipment q)\<rparr>;
            q2 = q1\<lparr>inventory := inventory q1 @ [a]\<rparr>
        in ((q2, setEquipped False st a), True)
      else ((p, st), False))"

section \<open>Attacks\<close>

definition distance :: "'a position_scheme \<Rightarrow> 'b position_scheme \<Rightarrow> real" where
  "distance a b = (let dx = x a - x b; dy = y a - y b in sqrt (dx * dx + dy * dy))"




text \<open>
  \<open>Monster.attackTarget(target)\<close>: the monster, the target and the number of the next draw.
  \<open>this.isBoss && Math.random() < 0.1\<close> draws only for a boss.
\<close>

definition attackTarget ::
  "real \<Rightarrow> draws \<Rightarrow> nat \<Rightarrow> store \<Rightarrow> monster \<Rightarrow> player \<Rightarrow> monster \<times> player \<times> nat" where
  "attackTarget now rnd k st m target =
     (if now - lastAttackTime m \<ge> attackSpeed m
      then
        let m' = m\<lparr>lastAttackTime := now\<rparr>
        in if distance m' target \<le> attackRange m'
           then
             let crit = (isBoss m' \<and> rnd k < 0.1);
                 k' = (if isBoss m' then Suc k else k);
                 damage = (if crit then attack m' * 2 else attack m');
                 damageDealt = max 1 (damage - defense target * 0.5)
             in (m', fst (playerTakeDamage st damageDealt target), k')
           else (m', target, k)
      else (m, target, k))"

section \<open>Loot\<close>













section \<open>The combat sweep of the game loop\<close>

record attack_effect = position +
  damage :: real
  lifetime :: real
  maxLifetime :: real
  color :: string

text \<open>
  The part of the state of \<open>GameSystem\<close> that the combat sweep reads and writes: the
  player, the monsters and the score of \<open>gameState\<close>, the list \<open>attackEffects\<close>, and the
  store of the equipment objects.
\<close>

record game =
  gplayer :: player
  monsters :: "monster list"
  score :: real
  attackEffects :: "attack_effect list"
  eqStore :: store

definition createAttackEffect :: "real \<Rightarrow> real \<Rightarrow> real \<Rightarrow> string \<Rightarrow> game \<Rightarrow> game" where
  "createAttackEffect ex ey dmg col g =
     g\<lparr>attackEffects := attackEffects g @
         [\<lparr>x = ex, y = ey, damage = dmg, lifetime = 0.5, maxLifetime = 0.5, color = col\<rparr>]\<rparr>"

definition addLoot :: "player \<times> store \<Rightarrow> addr \<Rightarrow> player \<times> store" where
  "addLoot ps a = addEquipment a (snd ps) (fst ps)"





text \<open>\<open>checkMonsterAttacks\<close>: every monster within 60 of the player hits it.\<close>

definition monsterHit :: "store \<Rightarrow> player \<Rightarrow> monster \<Rightarrow> player" where
  "monsterHit st p m =
     (let dst = sqrt ((x p - x m)\<^sup>2 + (y p - y m)\<^sup>2)
      in if dst \<le> 60
         then
           let actualDamage = max 1 (attack m - defense p * 0.5)
           in fst (playerTakeDamage st actualDamage p)
         else p)"

definition checkMonsterAttacks :: "game \<Rightarrow> game" where
  "checkMonsterAttacks g = g\<lparr>gplayer := foldl (monsterHit (eqStore g)) (gplayer g) (monsters g)\<rparr>"

section \<open>Rarity of generated equipment\<close>

definition rarityWeights :: "bool \<Rightarrow> (rarity_key \<times> real) list" where
  "rarityWeights isBossDrop =
     [(COMMON, if isBossDrop then 0 else 60),
      (UNCOMMON, if isBossDrop then 10 else 30),
      (RARE, if isBossDrop then 30 else 8),
      (EPIC, if isBossDrop then 40 else 2),
      (LEGENDARY, if isBossDrop then 20 else 0)]"

text \<open>The \<open>for\<close> loop of the inlined \<open>weightedRandom\<close>; \<open>None\<close> is falling out of the loop.\<close>

fun weightedLoop :: "(rarity_key \<times> real) list \<Rightarrow> real \<Rightarrow> rarity_key option" where
  "weightedLoop [] randomValue = None"
| "weightedLoop ((key, weight) # rest) randomValue =
     (if randomValue - weight \<le> 0 then Some key else weightedLoop rest (randomValue - weight))"

definition weightedRandom :: "(rarity_key \<times> real) list \<Rightarrow> real \<Rightarrow> rarity_key" where
  "weightedRandom weights r =
     (let totalWeight = foldl (\<lambda>sum w. sum + w) 0 (map snd weights)
      in case weightedLoop weights (r * totalWeight) of
           Some key \<Rightarrow> key
         | None \<Rightarrow> (case weights of [] \<Rightarrow> COMMON | kw # rest \<Rightarrow> fst kw))"

definition generateRarity :: "bool \<Rightarrow> draws \<Rightarrow> nat \<Rightarrow> rarity_key \<times> nat" where
  "generateRarity isBossDrop rnd k = (weightedRandom (rarityWeights isBossDrop) (rnd k), Suc k)"

text \<open>
  The field \<open>rarity\<close> of the item that \<open>generateRandomEquipment(playerLevel, isBossDrop)\<close>
  returns. The rarity is rolled first, on the first draw of the call, lower-cased, and
  handed to the constructor of the class of the item, which stores it. The player level
  plays no part in the roll. The level, the type, the name and the stats of the item are
  drawn afterwards and are not modelled.
\<close>

definition generateRandomEquipment_rarity :: "bool \<Rightarrow> draws \<Rightarrow> nat \<Rightarrow> rarity" where
  "generateRandomEquipment_rarity isBossDrop rnd k = toLowerCase (fst (generateRarity isBossDrop rnd k))"

section \<open>Line of sight\<close>











section \<open>Vocabulary of the statements\<close>





section \<open>Example states\<close>

text \<open>Two outcomes of \<open>Math.random()\<close>: every draw is 0; every draw is 0.001.\<close>

definition zeroDraws :: draws where
  "zeroDraws = (\<lambda>i. 0)"

definition milliDraws :: draws where
  "milliDraws = (\<lambda>i. 1 / 1000)"

text \<open>
  A fresh player at the origin, a normal monster of level 1 with attack 10 on the same
  spot, a tree, and the game state made of the player and the monster.
\<close>

definition examplePlayer :: player where
  "examplePlayer = fst (newPlayer 0 zeroDraws 0 0 0)"

definition exampleMonster :: monster where
  "exampleMonster =
     \<lparr>x = 0, y = 0, width = 30, height = 36, isSolid = True, entId = (0, 0),
      health = 50, maxHealth = 50, level = 1, attack = 10, defense = 2, moveSpeed = 150,
      attackSpeed = 1000, lastAttackTime = 0, experienceReward = 10, isElite = False,
      isBoss = False, attackRange = 60, aggroRange = 200\<rparr>"


definition exampleGame :: game where
  "exampleGame =
     \<lparr>gplayer = examplePlayer, monsters = [exampleMonster], score = 0, attackEffects = [],
      eqStore = []\<rparr>"

text \<open>The chunk at the origin of the grid, not yet generated.\<close>

definition exampleChunk :: chunk where
  "exampleChunk = \<lparr>chunkId = (0, 0), chunkX = 0, chunkY = 0, obstacles = [], generated = False\<rparr>"

text \<open>
  Two weapons made by the equipment factory, a sword that is flagged as equipped and an axe
  that is not, in a store of their own; a player who owns both, and one who owns the sword.
\<close>

definition exampleSword :: equipment where
  "exampleSword =
     \<lparr>equipId = (1, 0), name = ''sword'', description = ''common sword'', etype = WEAPON,
      erarity = common, equipLevel = Some 1, stats = [(Attack, 5)], isEquipped = True,
      hasEffects = True\<rparr>"

definition exampleAxe :: equipment where
  "exampleAxe =
     \<lparr>equipId = (2, 0), name = ''axe'', description = ''common axe'', etype = WEAPON,
      erarity = common, equipLevel = Some 1, stats = [(Attack, 7)], isEquipped = False,
      hasEffects = True\<rparr>"

definition exampleStore :: store where
  "exampleStore = [exampleSword, exampleAxe]"






section \<open>Damage: the floor of one point\<close>

lemma foldl_hurtSkillStep: "foldl hurtSkillStep p ss = p"
  by (induction ss) (simp_all add: hurtSkillStep_def buffEffect_def)

lemma playerTakeDamage_fst:
  "fst (playerTakeDamage st amount p) = p\<lparr>health := health p - max 1 (playerDamage st p amount)\<rparr>"
  by (simp add: playerTakeDamage_def Let_def foldl_hurtSkillStep)






section \<open>Progression: the level-up loop\<close>








section \<open>World chunks: generation\<close>

lemma generateLoop_stop:
  "\<not> real i < obstacleCount \<Longrightarrow>
   generateLoop chunkSeed worldX worldY now rnd obstacleCount i k obs = (obs, k)"
  by (subst generateLoop.simps) simp

lemma generateLoop_step:
  "real i < obstacleCount \<Longrightarrow>
   generateLoop chunkSeed worldX worldY now rnd obstacleCount i k obs =
     generateLoop chunkSeed worldX worldY now rnd obstacleCount (Suc i)
       (snd (makeObstacle chunkSeed worldX worldY now rnd k))
       (obs @ [fst (makeObstacle chunkSeed worldX worldY now rnd k)])"
  by (subst generateLoop.simps) simp

text \<open>The loop adds one obstacle for each index from \<open>i\<close> up to the count.\<close>

lemma generateLoop_length:
  "length (fst (generateLoop chunkSeed worldX worldY now rnd obstacleCount i k obs)) =
     length obs + (nat \<lceil>obstacleCount\<rceil> - i)"
proof (induction chunkSeed worldX worldY now rnd obstacleCount i k obs rule: generateLoop.induct)
  case (1 chunkSeed worldX worldY now rnd obstacleCount i k obs)
  show ?case
  proof (cases "real i < obstacleCount")
    case True
    then have "real i < of_int \<lceil>obstacleCount\<rceil>"
      by (meson le_of_int_ceiling less_le_trans)
    then have "i < nat \<lceil>obstacleCount\<rceil>"
      by linarith
    then show ?thesis
      using 1 [OF True] by (simp add: generateLoop_step [OF True])
  next
    case False
    then have "obstacleCount \<le> of_int (int i)"
      by simp
    then have "\<lceil>obstacleCount\<rceil> \<le> int i"
      by (rule ceiling_le)
    then have "nat \<lceil>obstacleCount\<rceil> - i = 0"
      by linarith
    then show ?thesis
      by (simp add: generateLoop_stop [OF False])
  qed
qed

lemma generate_count:
  "\<not> generated c \<Longrightarrow>
   length (obstacles (fst (generate seed now rnd k c))) =
     length (obstacles c) +
     nat (\<lfloor>simpleRandom (seed + chunkX c * 10000 + chunkY c * 100 + rnd k * 1000) * 15\<rfloor> + 5)"
  by (simp add: generate_def Let_def generateLoop_length rng_def)

lemma simpleRandom_0: "simpleRandom 0 = 0"
  by (simp add: simpleRandom_def)

text \<open>
  The value of \<open>simpleRandom\<close> at 1. The sine of 1 is within \<open>1 / 10!\<close> of its Taylor
  polynomial of degree 9, which is 305353 / 362880: 10000 times the sine lies between
  8414.707 and 8414.713.
\<close>

lemma sum_below_ten:
  fixes f :: "nat \<Rightarrow> real"
  shows "(\<Sum>m<10. f m) = f 0 + f 1 + f 2 + f 3 + f 4 + f 5 + f 6 + f 7 + f 8 + f 9"
  by (simp add: eval_nat_numeral)

lemma sin_coeff_one: "sin_coeff (Suc 0) = 1"
  using sin_coeff_Suc [of 0] by simp

lemma sin_coeff_values:
  "sin_coeff 0 = 0" "sin_coeff 2 = 0" "sin_coeff 3 = - 1 / 6"
  "sin_coeff 4 = 0" "sin_coeff 5 = 1 / 120" "sin_coeff 6 = 0" "sin_coeff 7 = - 1 / 5040"
  "sin_coeff 8 = 0" "sin_coeff 9 = 1 / 362880"
  by (simp_all add: sin_coeff_def fact_numeral sin_coeff_one)

lemma sin_one_bounds: "8414707 / 10000000 \<le> sin (1::real)" "sin (1::real) \<le> 8414713 / 10000000"
proof -
  have a: "\<bar>sin (1::real) - (\<Sum>m<10. sin_coeff m * 1 ^ m)\<bar> \<le> inverse (fact 10) * \<bar>1\<bar> ^ 10"
    by (rule Maclaurin_sin_bound)
  have s: "(\<Sum>m<10. sin_coeff m * (1::real) ^ m) = 305353 / 362880"
    by (simp add: sum_below_ten sin_coeff_values sin_coeff_one)
  have c: "inverse (fact 10) * \<bar>1::real\<bar> ^ 10 = 1 / 3628800"
    by (simp add: fact_numeral)
  have b: "\<bar>sin (1::real) - 305353 / 362880\<bar> \<le> 1 / 3628800"
    using a unfolding s c .
  show "8414707 / 10000000 \<le> sin (1::real)"
    using b by linarith
  show "sin (1::real) \<le> 8414713 / 10000000"
    using b by linarith
qed

lemma simpleRandom_one: "\<lfloor>simpleRandom 1 * 15\<rfloor> = 10"
proof -
  have f: "\<lfloor>sin (1::real) * 10000\<rfloor> = 8414" using sin_one_bounds by linarith
  have "simpleRandom 1 = sin 1 * 10000 - 8414"
    by (simp add: simpleRandom_def Let_def f)
  then show ?thesis using sin_one_bounds by linarith
qed

text \<open>
  C3: the code does not do what the claim says. \<open>rng\<close> adds a fresh draw of
  \<open>Math.random()\<close> to the chunk seed, so the obstacles depend on the draws and not on the
  seed and the coordinates alone: the chunk (0, 0) with seed 0 gets 5 obstacles when every
  draw is 0 and 15 obstacles when every draw is 0.001.
\<close>

theorem generate_not_deterministic:
  "length (obstacles (fst (generate 0 0 zeroDraws 0 exampleChunk))) = 5
   \<and> length (obstacles (fst (generate 0 0 milliDraws 0 exampleChunk))) = 15"
  by (simp add: generate_count exampleChunk_def simpleRandom_0 simpleRandom_one
      zeroDraws_def milliDraws_def)

text \<open>After \<open>generate\<close> the flag \<open>generated\<close> is set, whatever it was before.\<close>

lemma generate_generated: "generated (fst (generate seed now rnd k c))"
  by (simp add: generate_def Let_def)

text \<open>
  C8: for every chunk and seed, a second call of \<open>generate(seed)\<close>, whatever the clock
  and the draws of \<open>Math.random()\<close> at that time, returns the chunk that the first call
  has made, with the same list of obstacles, and uses no draw: it is a no-op.
\<close>

theorem generate_idempotent:
  "generate seed now' rnd' k' (fst (generate seed now rnd k c)) = (fst (generate seed now rnd k c), k')"
  using generate_generated [of seed now rnd k c] by (subst generate_def) simp

section \<open>Rarity of a boss drop\<close>

lemma toLowerCase_common: "(toLowerCase key = common) = (key = COMMON)"
  by (cases key) simp_all

text \<open>
  With the weights of a boss drop the loop of \<open>weightedRandom\<close> tests \<open>randomValue <= 0\<close>
  after subtracting the weight 0 of the first key: a draw in the range of \<open>Math.random()\<close>
  selects \<open>COMMON\<close> exactly when it is 0.
\<close>

lemma boss_weightedRandom:
  "0 \<le> r \<Longrightarrow> r < 1 \<Longrightarrow> (weightedRandom (rarityWeights True) r = COMMON) = (r = 0)"
  by (auto simp add: weightedRandom_def rarityWeights_def Let_def)

lemma boss_drop_common_iff:
  "0 \<le> rnd k \<Longrightarrow> rnd k < 1 \<Longrightarrow>
   (generateRandomEquipment_rarity True rnd k = common) = (rnd k = 0)"
  by (simp add: generateRandomEquipment_rarity_def generateRarity_def toLowerCase_common
      boss_weightedRandom)

text \<open>
  C5: the code does not do what the claim says. When the draw of the rarity roll is 0, the
  item generated for a boss drop has the rarity \<open>common\<close>.
\<close>

theorem boss_drop_common_at_zero:
  "generateRandomEquipment_rarity True zeroDraws 0 = common"
  by (simp add: generateRandomEquipment_rarity_def generateRarity_def weightedRandom_def
      rarityWeights_def zeroDraws_def)

section \<open>A monster hits the player\<close>

lemma armorStep_none:
  "\<not> (isEquipped item \<and> truthy (statOf (stats item) Defense)) \<Longrightarrow> armorStep d item = d"
  by (cases "statOf (stats item) Defense") (auto simp add: armorStep_def)

lemma foldl_armorStep_none:
  "\<forall>item\<in>set items. \<not> (isEquipped item \<and> truthy (statOf (stats item) Defense)) \<Longrightarrow>
   foldl armorStep d items = d"
  by (induction items arbitrary: d) (simp_all add: armorStep_none)

lemma playerDamage_no_armor:
  "\<forall>a\<in>set (equipment p). \<not> (isEquipped (st ! a) \<and> truthy (statOf (stats (st ! a)) Defense)) \<Longrightarrow>
   playerDamage st p amount = max 1 (amount - min (defense p) (amount * 0.8))"
  by (simp add: playerDamage_def Let_def foldl_armorStep_none)

text \<open>
  C7, as stated, fails: when the example monster (attack 10, not a boss, its attack ready
  at time 1000) attacks the fresh player (defense 5, no equipment), the health of the player
  does not go down by 5.
\<close>

theorem monster_hit_not_five:
  "health examplePlayer
     - health (fst (snd (attackTarget 1000 zeroDraws 0 [] exampleMonster examplePlayer))) \<noteq> 5"
  by (simp add: attackTarget_def Let_def playerTakeDamage_fst playerDamage_def distance_def
      examplePlayer_def exampleMonster_def newPlayer_def)

text \<open>
  C7, amended: when a monster with attack 10 hits a player with defense 5 that has no
  equipped item with a defense stat, the damage applied to the health of the player is
  2.5. The monster passes \<open>max(1, 10 - 5 * 0.5) = 7.5\<close> to \<open>Player.takeDamage\<close>, which
  takes \<open>min(5, 0.8 * 7.5) = 5\<close> off again. This holds for \<open>Monster.attackTarget\<close> (the
  monster not a boss, its attack ready and the player in range) and for the sweep of
  \<open>checkMonsterAttacks\<close> (the monster within 60 of the player).
\<close>

theorem monster_hit_ten_on_five:
  "attack m = 10 \<Longrightarrow> defense p = 5 \<Longrightarrow>
   \<forall>a\<in>set (equipment p). \<not> (isEquipped (st ! a) \<and> truthy (statOf (stats (st ! a)) Defense)) \<Longrightarrow>
   (\<not> isBoss m \<longrightarrow> now - lastAttackTime m \<ge> attackSpeed m \<longrightarrow> distance m p \<le> attackRange m \<longrightarrow>
      health p - health (fst (snd (attackTarget now rnd k st m p))) = 5 / 2)
   \<and> (sqrt ((x p - x m)\<^sup>2 + (y p - y m)\<^sup>2) \<le> 60 \<longrightarrow>
      health p - health (monsterHit st p m) = 5 / 2)"
  by (simp add: attackTarget_def monsterHit_def Let_def playerTakeDamage_fst
      playerDamage_no_armor distance_def)

text \<open>
  C7, the amended statement at a concrete input: the example monster and the fresh player,
  at time 1000; the health of the player goes from 100 to 97.5 on both paths.
\<close>

theorem monster_hit_ten_on_five_witness:
  "attack exampleMonster = 10 \<and> defense examplePlayer = 5
   \<and> equipment examplePlayer = []
   \<and> \<not> isBoss exampleMonster
   \<and> 1000 - lastAttackTime exampleMonster \<ge> attackSpeed exampleMonster
   \<and> distance exampleMonster examplePlayer \<le> attackRange exampleMonster
   \<and> sqrt ((x examplePlayer - x exampleMonster)\<^sup>2 + (y examplePlayer - y exampleMonster)\<^sup>2) \<le> 60
   \<and> health (fst (snd (attackTarget 1000 zeroDraws 0 [] exampleMonster examplePlayer))) = 97.5
   \<and> health (monsterHit [] examplePlayer exampleMonster) = 97.5
   \<and> health (gplayer (checkMonsterAttacks exampleGame)) = 97.5"
  using monster_hit_ten_on_five [of exampleMonster examplePlayer "[]" 1000 zeroDraws 0]
  by (simp add: examplePlayer_def exampleMonster_def newPlayer_def distance_def
      checkMonsterAttacks_def exampleGame_def)

section \<open>Picking up equipment\<close>

text \<open>
  C10: for every equipment object \<open>e\<close> (the object at an allocated address \<open>a\<close>),
  \<open>addEquipment(e)\<close> pushes the address of a new object on the list \<open>equipment\<close> of the
  player and changes nothing else of the player. The new object is not \<open>e\<close>; it has the
  fields of \<open>e\<close> except that \<open>isEquipped\<close> is false whatever it is in \<open>e\<close> (and, being a
  spread copy, it has no method of the prototype of \<open>e\<close>); \<open>e\<close> itself is not changed.
\<close>

theorem addEquipment_copy:
  "a < length st \<Longrightarrow>
   fst (addEquipment a st p) = p\<lparr>equipment := equipment p @ [length st]\<rparr>
   \<and> length st \<noteq> a
   \<and> snd (addEquipment a st p) = st @ [(st ! a)\<lparr>isEquipped := False, hasEffects := False\<rparr>]
   \<and> \<not> isEquipped (snd (addEquipment a st p) ! length st)
   \<and> snd (addEquipment a st p) ! a = st ! a"
  by (simp add: addEquipment_def alloc_def Let_def nth_append)

text \<open>
  C10 at a concrete input: the fresh player picks up the sword, which is flagged as
  equipped; the copy in the list of the player is not.
\<close>

theorem addEquipment_copy_witness:
  "(0::nat) < length exampleStore
   \<and> equipment (fst (addEquipment 0 exampleStore examplePlayer)) = [2]
   \<and> isEquipped (exampleStore ! 0)
   \<and> snd (addEquipment 0 exampleStore examplePlayer) =
        [exampleSword, exampleAxe, exampleSword\<lparr>isEquipped := False, hasEffects := False\<rparr>]"
  using addEquipment_copy [of 0 exampleStore examplePlayer]
  by (simp add: examplePlayer_def newPlayer_def exampleStore_def exampleSword_def)

text \<open>
  The loot of a dead monster goes through \<open>addEquipment\<close>: the object added last to the
  list of the player is not flagged.
\<close>

lemma addLoot_unequipped:
  "a < length st \<Longrightarrow>
   \<not> isEquipped (snd (addLoot (p, st) a) ! last (equipment (fst (addLoot (p, st) a))))"
  by (simp add: addLoot_def addEquipment_def alloc_def Let_def)

section \<open>Line of sight\<close>











section \<open>The cadence of attacks\<close>

lemma createAttackEffect_fields [simp]:
  "gplayer (createAttackEffect ex ey dmg col g) = gplayer g"
  "monsters (createAttackEffect ex ey dmg col g) = monsters g"
  "eqStore (createAttackEffect ex ey dmg col g) = eqStore g"
  "score (createAttackEffect ex ey dmg col g) = score g"
  by (simp_all add: createAttackEffect_def)






section \<open>Equipping\<close>

text \<open>What the flag writes do to the object at an address of the store.\<close>

lemma setEquipped_length [simp]: "length (setEquipped b st a) = length st"
  by (simp add: setEquipped_def)

lemma setEquipped_nth:
  "c < length st \<Longrightarrow>
   setEquipped b st a ! c = (if c = a then (st ! c)\<lparr>isEquipped := b\<rparr> else st ! c)"
  by (simp add: setEquipped_def nth_list_update)

lemma unflagType_length [simp]: "length (unflagType ty st b) = length st"
  by (simp add: unflagType_def)


lemma foldl_unflagType_length [simp]: "length (foldl (unflagType ty) st as) = length st"
  by (induction as arbitrary: st) simp_all








lemma applyEffect_equipment: "equipment (foldl applyEffectStep p sts) = equipment p"
proof (induction sts arbitrary: p)
  case Nil
  then show ?case by simp
next
  case (Cons kv sts)
  obtain key v where kv: "kv = (key, v)" by (cases kv)
  show ?case by (cases key) (simp_all add: kv Cons.IH)
qed

lemma applyEffect_inventory: "inventory (foldl applyEffectStep p sts) = inventory p"
proof (induction sts arbitrary: p)
  case Nil
  then show ?case by simp
next
  case (Cons kv sts)
  obtain key v where kv: "kv = (key, v)" by (cases kv)
  show ?case by (cases key) (simp_all add: kv Cons.IH)
qed

lemma removeEffect_equipment: "equipment (foldl removeEffectStep p sts) = equipment p"
proof (induction sts arbitrary: p)
  case Nil
  then show ?case by simp
next
  case (Cons kv sts)
  obtain key v where kv: "kv = (key, v)" by (cases kv)
  show ?case by (cases key) (simp_all add: kv Cons.IH)
qed

lemma removeEffect_inventory: "inventory (foldl removeEffectStep p sts) = inventory p"
proof (induction sts arbitrary: p)
  case Nil
  then show ?case by simp
next
  case (Cons kv sts)
  obtain key v where kv: "kv = (key, v)" by (cases kv)
  show ?case by (cases key) (simp_all add: kv Cons.IH)
qed

lemmas effect_lists =
  applyEffect_equipment applyEffect_inventory removeEffect_equipment removeEffect_inventory



text \<open>
  \<open>unequipFromPlayer\<close> clears the flag of the item it moves to the inventory;
  \<open>equipToPlayer\<close> moves the old item of the type without writing its flag.
\<close>

lemma unequipFromPlayer_clears_flag:
  "a \<in> set (equipment p) \<Longrightarrow> a < length st \<Longrightarrow>
   \<not> isEquipped (snd (fst (unequipFromPlayer a st p)) ! a)
   \<and> inventory (fst (fst (unequipFromPlayer a st p))) = inventory p @ [a]"
  by (simp add: unequipFromPlayer_def Let_def setEquipped_nth removeEffect_def effect_lists)

lemma equipToPlayer_keeps_old_flag:
  "find (\<lambda>b. etype (st ! b) = etype (st ! n)) (equipment p) = Some old \<Longrightarrow>
   old < length st \<Longrightarrow> old \<noteq> n \<Longrightarrow>
   isEquipped (snd (equipToPlayer n st p) ! old) = isEquipped (st ! old)"
  by (simp add: equipToPlayer_def Let_def setEquipped_nth)





end
